theory Spec2Isabelle
  imports Complex_Main "HOL-Library.Sublist"
begin

section \<open>JavaScript values, exceptions and promises\<close>

text \<open>
  The values the Vue client handles are the ones a parsed JSON response can hold, plus
  \<open>undefined\<close> (a missing property). Objects are association lists in lookup order.
\<close>

datatype jsval =
    JUndefined
  | JNull
  | JBool bool
  | JNum real
  | JStr string
  | JArr "jsval list"
  | JObj "(string \<times> jsval) list"

text \<open>
  The exceptions the client meets are error objects: the \<open>Error\<close> that \<open>jsonFetch\<close> creates, the
  TypeError of a property read on \<open>undefined\<close> or \<open>null\<close> and of a failed \<open>fetch\<close>, the
  SyntaxError of \<open>res.json()\<close> on a body that is not JSON, and the AbortError of an aborted
  request. Each has its class's \<open>name\<close> and a \<open>message\<close>; the wording of an engine's own
  messages is V8's, without the quotes.
\<close>

datatype error_class = Error | TypeError | SyntaxError | AbortError

datatype js_error = JsError (err_class: error_class) (message: string)

fun error_name :: "error_class \<Rightarrow> string" where
  "error_name Error = ''Error''"
| "error_name TypeError = ''TypeError''"
| "error_name SyntaxError = ''SyntaxError''"
| "error_name AbortError = ''AbortError''"

text \<open>\<open>String(e)\<close> on an error object is \<open>Error.prototype.toString\<close>.\<close>

definition String_of_error :: "js_error \<Rightarrow> string" where
  "String_of_error e =
     (let n = error_name (err_class e); m = message e
      in if n = [] then m else if m = [] then n else n @ '': '' @ m)"

text \<open>
  A promise, seen by the code that awaits it: it may never settle, reject with an error,
  or fulfil with a value. \<open>await\<close> runs the rest of an async function on the value and
  passes the other two outcomes on.
\<close>

datatype 'a promise = Pending | Rejected js_error | Fulfilled 'a

definition await :: "'a promise \<Rightarrow> ('a \<Rightarrow> 'b promise) \<Rightarrow> 'b promise" where
  "await p k = (case p of Pending \<Rightarrow> Pending | Rejected e \<Rightarrow> Rejected e | Fulfilled v \<Rightarrow> k v)"

text \<open>The template literal's number-to-string conversion, for a non-negative integer.\<close>

fun show_nat :: "nat \<Rightarrow> string" where
  "show_nat n =
     (if n < 10 then [''0123456789'' ! n]
      else show_nat (n div 10) @ [''0123456789'' ! (n mod 10)])"

declare show_nat.simps [simp del]

fun truthy :: "jsval \<Rightarrow> bool" where
  "truthy JUndefined = False"
| "truthy JNull = False"
| "truthy (JBool b) = b"
| "truthy (JNum n) = (n \<noteq> 0)"
| "truthy (JStr s) = (s \<noteq> [])"
| "truthy (JArr xs) = True"
| "truthy (JObj kvs) = True"

fun nullish :: "jsval \<Rightarrow> bool" where
  "nullish JUndefined = True"
| "nullish JNull = True"
| "nullish v = False"

fun typeof :: "jsval \<Rightarrow> string" where
  "typeof JUndefined = ''undefined''"
| "typeof JNull = ''object''"
| "typeof (JBool b) = ''boolean''"
| "typeof (JNum n) = ''number''"
| "typeof (JStr s) = ''string''"
| "typeof (JArr xs) = ''object''"
| "typeof (JObj kvs) = ''object''"

fun isArray :: "jsval \<Rightarrow> bool" where
  "isArray (JArr xs) = True"
| "isArray v = False"

text \<open>
  \<open>o.k\<close> for one of the data property names the client reads (\<open>name\<close>, \<open>exercise\<close>,
  \<open>title\<close>, \<open>sets\<close>, ...): an object's own property or \<open>undefined\<close>; \<open>undefined\<close> on a
  boolean, number, string or array, whose prototypes have none of these; a TypeError on
  \<open>undefined\<close> and \<open>null\<close>.
\<close>

fun property :: "jsval \<Rightarrow> string \<Rightarrow> jsval" where
  "property (JObj kvs) k = (case map_of kvs k of None \<Rightarrow> JUndefined | Some v \<Rightarrow> v)"
| "property v k = JUndefined"

definition get_prop :: "jsval \<Rightarrow> string \<Rightarrow> js_error + jsval" where
  "get_prop v k =
     (if nullish v
      then Inl (JsError TypeError
             (''Cannot read properties of '' @ (if v = JNull then ''null'' else ''undefined'')
              @ '' (reading '' @ k @ '')''))
      else Inr (property v k))"

text \<open>\<open>arr[0]\<close> on an array: its first element, \<open>undefined\<close> when it is empty.\<close>

fun index0 :: "jsval list \<Rightarrow> jsval" where
  "index0 [] = JUndefined"
| "index0 (x # xs) = x"

text \<open>\<open>a || b\<close> and \<open>a ?? b\<close>: the right operand is evaluated only when it is needed.\<close>

definition js_or :: "js_error + jsval \<Rightarrow> js_error + jsval \<Rightarrow> js_error + jsval" where
  "js_or a b = (case a of Inl e \<Rightarrow> Inl e | Inr v \<Rightarrow> if truthy v then Inr v else b)"

definition js_coalesce :: "js_error + jsval \<Rightarrow> js_error + jsval \<Rightarrow> js_error + jsval" where
  "js_coalesce a b = (case a of Inl e \<Rightarrow> Inl e | Inr v \<Rightarrow> if nullish v then b else Inr v)"

text \<open>Sequencing of steps that may throw: the first exception ends the evaluation.\<close>

definition then_js :: "js_error + 'a \<Rightarrow> ('a \<Rightarrow> js_error + 'b) \<Rightarrow> js_error + 'b" where
  "then_js r k = (case r of Inl e \<Rightarrow> Inl e | Inr v \<Rightarrow> k v)"

text \<open>\<open>arr.map(f)\<close> with a callback that may throw: the first exception ends the call.\<close>

fun map_js :: "(jsval \<Rightarrow> js_error + jsval) \<Rightarrow> jsval list \<Rightarrow> js_error + jsval list" where
  "map_js f [] = Inr []"
| "map_js f (x # xs) =
     then_js (f x) (\<lambda>y. then_js (map_js f xs) (\<lambda>ys. Inr (y # ys)))"


section \<open>The API client: \<open>jsonFetch\<close> (frontend-vue/src/api.js)\<close>

text \<open>
  What \<open>jsonFetch\<close> reads of a \<open>Response\<close>: \<open>ok\<close>, \<open>status\<close>, \<open>statusText\<close> and the promise
  that \<open>res.json()\<close> returns, which rejects when the body is not JSON.
\<close>

record response =
  ok :: bool
  status :: nat
  statusText :: string
  json :: "jsval promise"

text \<open>
  \<open>jsonFetch\<close> after its call to \<open>fetch(url, init)\<close>: the argument is the promise that call
  returned. The url and the init object only reach \<open>fetch\<close>.
\<close>

definition jsonFetch :: "response promise \<Rightarrow> jsval promise" where
  "jsonFetch fetched =
     await fetched (\<lambda>res.
       if \<not> ok res
       then Rejected (JsError Error (show_nat (status res) @ '' '' @ statusText res))
       else json res)"


section \<open>The plan view's normalizers and submit handler (the Vue component)\<close>

text \<open>The literal \<open>'\<emdash>'\<close>, U+2014, as its three UTF-8 bytes.\<close>

definition em_dash :: string where
  "em_dash = [CHR 0xE2, CHR 0x80, CHR 0x94]"

text \<open>
  \<open>toList\<close>. \<open>JSON.stringify\<close> is the host's; the string it returns for a value is the
  parameter \<open>stringify\<close>.
\<close>

definition toList_item :: "(jsval \<Rightarrow> string) \<Rightarrow> jsval \<Rightarrow> js_error + jsval" where
  "toList_item stringify o' =
     js_or (js_or (js_or (get_prop o' ''name'') (get_prop o' ''exercise''))
                  (get_prop o' ''title''))
           (Inr (JStr (stringify o')))"

definition toList :: "(jsval \<Rightarrow> string) \<Rightarrow> jsval \<Rightarrow> js_error + jsval" where
  "toList stringify arr =
     (if \<not> truthy arr then Inr (JArr [])
      else case arr of
        JArr xs \<Rightarrow>
          if typeof (index0 xs) = ''string'' then Inr arr
          else if typeof (index0 xs) = ''object''
          then then_js (map_js (toList_item stringify) xs) (\<lambda>ys. Inr (JArr ys))
          else Inr (JArr [])
      | _ \<Rightarrow> Inr (JArr []))"

text \<open>\<open>normalizeMain\<close>: the object literal's properties are evaluated in order.\<close>

definition normalizeMain_item :: "jsval \<Rightarrow> js_error + jsval" where
  "normalizeMain_item o' =
     (if typeof o' = ''string'' then Inr (JObj [(''exercise'', o')])
      else
        then_js (js_or (js_or (js_or (get_prop o' ''exercise'') (get_prop o' ''name''))
                              (get_prop o' ''title''))
                       (Inr (JStr em_dash))) (\<lambda>exercise.
        then_js (js_coalesce (js_coalesce (js_coalesce (get_prop o' ''sets'')
                                (get_prop o' ''sets_count'')) (get_prop o' ''set''))
                             (Inr JUndefined)) (\<lambda>sets.
        then_js (js_coalesce (js_coalesce (get_prop o' ''reps'') (get_prop o' ''rep_range''))
                             (Inr JUndefined)) (\<lambda>reps.
        then_js (js_coalesce (get_prop o' ''tempo'') (Inr JUndefined)) (\<lambda>tempo.
        then_js (js_coalesce (js_coalesce (get_prop o' ''rest'') (get_prop o' ''rest_seconds''))
                             (Inr JUndefined)) (\<lambda>rest.
          Inr (JObj [(''exercise'', exercise), (''sets'', sets), (''reps'', reps),
                     (''tempo'', tempo), (''rest'', rest)])))))))"

definition normalizeMain :: "jsval \<Rightarrow> js_error + jsval" where
  "normalizeMain arr =
     (case arr of
        JArr xs \<Rightarrow>
          then_js (map_js normalizeMain_item xs) (\<lambda>ys. Inr (JArr ys))
      | _ \<Rightarrow> Inr (JArr []))"

text \<open>
  The component's three refs. \<open>onSubmit\<close> awaits the three API calls, which are parameters
  here: what each returns is decided by the server.
\<close>

record view_state =
  error :: string
  plan :: jsval
  loading :: bool

text \<open>\<open>const { k } = v\<close>: a TypeError when \<open>v\<close> is \<open>undefined\<close> or \<open>null\<close>.\<close>

definition destructure :: "jsval \<Rightarrow> string \<Rightarrow> jsval promise" where
  "destructure v k =
     (if nullish v
      then Rejected (JsError TypeError
             (''Cannot destructure property '' @ k @ '' of '' @
              (if v = JNull then ''null'' else ''undefined'')))
      else Fulfilled (property v k))"

text \<open>The body of the \<open>try\<close> block; its value is what is assigned to \<open>plan.value\<close>.\<close>

definition try_block ::
  "('f \<Rightarrow> jsval promise) \<Rightarrow> (jsval \<Rightarrow> jsval promise) \<Rightarrow> (jsval \<Rightarrow> jsval promise)
     \<Rightarrow> 'f \<Rightarrow> jsval promise" where
  "try_block createIntake generatePlanByIntakeId getPlan form =
     await (createIntake form) (\<lambda>r1.
     await (destructure r1 ''intake_id'') (\<lambda>intake_id.
     await (generatePlanByIntakeId intake_id) (\<lambda>r2.
     await (destructure r2 ''plan_id'') (\<lambda>plan_id.
     getPlan plan_id))))"

text \<open>
  \<open>onSubmit\<close>: \<open>None\<close> when an awaited promise never settles, so that the handler never
  completes; otherwise the state it leaves.
\<close>

definition onSubmit ::
  "('f \<Rightarrow> jsval promise) \<Rightarrow> (jsval \<Rightarrow> jsval promise) \<Rightarrow> (jsval \<Rightarrow> jsval promise)
     \<Rightarrow> 'f \<Rightarrow> view_state \<Rightarrow> view_state option" where
  "onSubmit createIntake generatePlanByIntakeId getPlan form s =
     (let s1 = s\<lparr>error := [], plan := JNull, loading := True\<rparr>
      in case try_block createIntake generatePlanByIntakeId getPlan form of
           Pending \<Rightarrow> None
         | Fulfilled p \<Rightarrow> Some ((s1\<lparr>plan := p\<rparr>)\<lparr>loading := False\<rparr>)
         | Rejected e \<Rightarrow>
             Some ((s1\<lparr>error := (if message e \<noteq> [] then message e else String_of_error e)\<rparr>)
                     \<lparr>loading := False\<rparr>))"


section \<open>The plan lifecycle (the \<open>plans\<close> table and its \<open>status\<close> column)\<close>

text \<open>
  The schema's \<open>plans\<close> table: \<open>id\<close>, \<open>client_id\<close>, \<open>structure_json\<close>, \<open>pdf_url\<close> (nullable),
  \<open>status TEXT NOT NULL DEFAULT 'draft'\<close> with the values \<open>draft|approved|sent\<close>, and
  \<open>created_at\<close>. The structured document is kept opaque.
\<close>

datatype plan_status = Draft | Approved | Sent

record 's plan_row =
  plan_id :: string
  client_id :: string
  structure_json :: 's
  pdf_url :: "string option"
  plan_status :: plan_status
  created_at :: nat

text \<open>The position of a status along \<open>draft \<rightarrow> approved \<rightarrow> sent\<close>.\<close>

fun rank :: "plan_status \<Rightarrow> nat" where
  "rank Draft = 0"
| "rank Approved = 1"
| "rank Sent = 2"

text \<open>
  Modelled from the spec: the ValidationResult that the Plan Validator hands to the approval
  step, "boolean pass flag, ordered sequence of violations". The validator is backend code
  that is not among the sources; a violation is kept opaque.
\<close>

record 'v validation_result =
  pass :: bool
  violations :: "'v list"

text \<open>
  Modelled from the spec: the trainer approval signal, "an external boolean decision plus
  identity of the approving trainer". The review screen that sends it is not among the
  sources.
\<close>

record approval_signal =
  decision :: bool
  trainer :: string

text \<open>
  Modelled from the spec: the two rejections of the approval state machine, ValidationFailed
  "with the itemized violation list" and IllegalTransition, "an approval or send action
  attempted against a plan not in the required source state". The backend that raises them
  is not among the sources.
\<close>

datatype 'v rejection = ValidationFailed "'v list" | IllegalTransition

text \<open>
  Modelled from the spec: the transition draft \<rightarrow> approved of the Plan Approval State Machine
  (the handler of \<open>POST /api/plans/{id}/approve\<close> is not among the sources). It "requires
  ValidationResult.pass = true AND an explicit trainer-approval action"; with a failing
  ValidationResult it "fails with a rejection signaling the violation list, and the plan
  remains in draft". The result is the rejection, if any, and the row as it is left.
\<close>

definition approve ::
  "'v validation_result \<Rightarrow> approval_signal \<Rightarrow> 's plan_row
     \<Rightarrow> 'v rejection option \<times> 's plan_row" where
  "approve vr sig p =
     (if plan_status p \<noteq> Draft then (Some IllegalTransition, p)
      else if \<not> pass vr then (Some (ValidationFailed (violations vr)), p)
      else if \<not> decision sig then (Some IllegalTransition, p)
      else (None, p\<lparr>plan_status := Approved\<rparr>))"

text \<open>
  Modelled from the spec: the transition approved \<rightarrow> sent (the delivery code is not among the
  sources). It is "triggered only by successful external delivery confirmation" and is
  idempotent: on a plan that is already sent, a redelivery attempt changes nothing.
  \<open>delivered\<close> is the external confirmation.
\<close>

definition confirm_delivery ::
  "bool \<Rightarrow> 's plan_row \<Rightarrow> 'v rejection option \<times> 's plan_row" where
  "confirm_delivery delivered p =
     (case plan_status p of
        Sent \<Rightarrow> (None, p)
      | Approved \<Rightarrow>
          if delivered then (None, p\<lparr>plan_status := Sent\<rparr>) else (Some IllegalTransition, p)
      | Draft \<Rightarrow> (Some IllegalTransition, p))"

text \<open>
  Modelled from the spec: the operations that reach the plan store (the backend's endpoints
  are not among the sources). \<open>Approve\<close> and \<open>ConfirmDelivery\<close> name a plan by its id;
  \<open>Generate\<close> is a generation or regeneration, which "produces a new Plan rather than
  editing in place", keyed by a newly minted identifier, with the client, the structure
  and the creation time.
\<close>

datatype ('s, 'v) operation =
    Approve string "'v validation_result" approval_signal
  | ConfirmDelivery string bool
  | Generate string string 's nat

text \<open>
  Modelled from the spec: one operation on the plan store, a map from the primary key to
  the row. An operation on an id that has no row changes nothing. A generated plan is
  inserted with the schema's defaults (\<open>status\<close> draft, no \<open>pdf_url\<close>); the primary key
  refuses an id that is taken. "Status transitions are the only mutation" of a row.
\<close>

fun step ::
  "(string \<rightharpoonup> 's plan_row) \<Rightarrow> ('s, 'v) operation \<Rightarrow> (string \<rightharpoonup> 's plan_row)" where
  "step st (Approve i vr sig) =
     (case st i of None \<Rightarrow> st | Some p \<Rightarrow> st(i \<mapsto> snd (approve vr sig p)))"
| "step st (ConfirmDelivery i delivered) =
     (case st i of
        None \<Rightarrow> st
      | Some p \<Rightarrow>
          st(i \<mapsto> snd (confirm_delivery delivered p :: 'v rejection option \<times> 's plan_row)))"
| "step st (Generate i c ps t) =
     (case st i of
        Some p \<Rightarrow> st
      | None \<Rightarrow>
          st(i \<mapsto> \<lparr>plan_id = i, client_id = c, structure_json = ps, pdf_url = None,
                    plan_status = Draft, created_at = t\<rparr>))"

text \<open>Modelled from the spec: any sequence of these operations, run from left to right.\<close>

fun run ::
  "(string \<rightharpoonup> 's plan_row) \<Rightarrow> ('s, 'v) operation list \<Rightarrow> (string \<rightharpoonup> 's plan_row)" where
  "run st [] = st"
| "run st (op # ops) = run (step st op) ops"


section \<open>Properties of \<open>jsonFetch\<close>\<close>

lemma await_Fulfilled: "await (Fulfilled v) k = k v"
  by (simp add: await_def)

lemma jsonFetch_no_response:
  "jsonFetch Pending = Pending \<and> jsonFetch (Rejected e) = Rejected e"
  by (simp add: jsonFetch_def await_def)

text \<open>
  C8, as amended. For every HTTP response \<open>res\<close> that \<open>fetch\<close> resolves with: when \<open>res.ok\<close> is
  true, \<open>jsonFetch\<close> settles exactly as \<open>res.json()\<close> does, so it returns the parsed JSON body
  exactly when \<open>res.ok\<close> is true and the body parses; when \<open>res.ok\<close> is false it never returns
  a value and throws an Error whose message is the status code, a space and the status
  text, and so contains both.
\<close>

theorem jsonFetch_settles:
  "jsonFetch (Fulfilled res) =
     (if ok res then json res
      else Rejected (JsError Error (show_nat (status res) @ '' '' @ statusText res)))
   \<and> ((\<exists>v. jsonFetch (Fulfilled res) = Fulfilled v) = (ok res \<and> (\<exists>v. json res = Fulfilled v)))
   \<and> (\<not> ok res \<longrightarrow>
        (\<exists>m. jsonFetch (Fulfilled res) = Rejected (JsError Error m)
           \<and> sublist (show_nat (status res)) m \<and> sublist (statusText res) m))"
proof -
  have eq: "jsonFetch (Fulfilled res) =
     (if ok res then json res
      else Rejected (JsError Error (show_nat (status res) @ '' '' @ statusText res)))"
    by (simp add: jsonFetch_def await_Fulfilled)
  have s1: "sublist (show_nat (status res)) (show_nat (status res) @ '' '' @ statusText res)"
    unfolding sublist_def by (rule exI[of _ "[]"]) auto
  have s2: "sublist (statusText res) (show_nat (status res) @ '' '' @ statusText res)"
    unfolding sublist_def by (rule exI[of _ "show_nat (status res) @ '' ''"]) auto
  show ?thesis using eq s1 s2 by auto
qed

text \<open>A 404 response: the hypothesis \<open>\<not> res.ok\<close> holds and the message is \<open>404 Not Found\<close>.\<close>

theorem jsonFetch_settles_witness:
  "\<not> ok \<lparr>ok = False, status = 404, statusText = ''Not Found'', json = Pending\<rparr>
   \<and> jsonFetch (Fulfilled \<lparr>ok = False, status = 404, statusText = ''Not Found'', json = Pending\<rparr>)
       = Rejected (JsError Error ''404 Not Found'')"
  using jsonFetch_settles
    [of "\<lparr>ok = False, status = 404, statusText = ''Not Found'', json = Pending\<rparr>"]
  by (simp add: show_nat.simps)

text \<open>
  C8 as stated fails: a 204 response has \<open>res.ok\<close> true and an empty body, on which
  \<open>res.json()\<close> rejects with a SyntaxError; \<open>jsonFetch\<close> then rejects too and returns no
  parsed body.
\<close>

theorem jsonFetch_ok_unparsable_body:
  "ok \<lparr>ok = True, status = 204, statusText = ''No Content'',
       json = Rejected (JsError SyntaxError ''Unexpected end of JSON input'')\<rparr>
   \<and> jsonFetch (Fulfilled \<lparr>ok = True, status = 204, statusText = ''No Content'',
        json = Rejected (JsError SyntaxError ''Unexpected end of JSON input'')\<rparr>)
       = Rejected (JsError SyntaxError ''Unexpected end of JSON input'')"
  by (simp add: jsonFetch_def await_def)


section \<open>Properties of the normalizers\<close>

lemma get_prop_defined: "\<not> nullish v \<Longrightarrow> get_prop v k = Inr (property v k)"
  by (simp add: get_prop_def)

lemma map_js_throws: "map_js f xs = Inl e \<Longrightarrow> \<exists>x \<in> set xs. f x = Inl e"
  by (induction xs) (auto simp: then_js_def split: sum.splits)

lemma map_js_throws_iff: "(\<exists>e. map_js f xs = Inl e) = (\<exists>x \<in> set xs. \<exists>e. f x = Inl e)"
proof (induction xs)
  case Nil
  then show ?case by simp
next
  case (Cons x xs)
  then show ?case by (cases "f x"; cases "map_js f xs") (auto simp: then_js_def)
qed

lemma map_js_length: "map_js f xs = Inr ys \<Longrightarrow> length ys = length xs"
  by (induction xs arbitrary: ys) (auto simp: then_js_def split: sum.splits)

lemma map_js_nth:
  "map_js f xs = Inr ys \<Longrightarrow> i < length xs \<Longrightarrow> f (xs ! i) = Inr (ys ! i)"
proof (induction xs arbitrary: ys i)
  case Nil
  then show ?case by simp
next
  case (Cons x xs)
  then show ?case by (cases i) (auto simp: then_js_def split: sum.splits)
qed

lemma typeof_string_not_nullish: "typeof x = ''string'' \<Longrightarrow> \<not> nullish x"
  by (cases x) simp_all

lemma normalizeMain_item_defined:
  "\<not> nullish x \<Longrightarrow>
   \<exists>y. normalizeMain_item x = Inr y \<and>
       property y ''exercise'' =
         (if typeof x = ''string'' then x
          else if truthy (property x ''exercise'') then property x ''exercise''
          else if truthy (property x ''name'') then property x ''name''
          else if truthy (property x ''title'') then property x ''title''
          else JStr em_dash)"
  by (simp add: normalizeMain_item_def get_prop_defined js_or_def js_coalesce_def then_js_def)

lemma normalizeMain_item_nullish:
  "nullish x \<Longrightarrow> \<exists>m. normalizeMain_item x = Inl (JsError TypeError m)"
  using typeof_string_not_nullish[of x]
  by (auto simp add: normalizeMain_item_def get_prop_def js_or_def js_coalesce_def then_js_def)

lemma normalizeMain_item_throws_iff: "(\<exists>e. normalizeMain_item x = Inl e) = nullish x"
  using normalizeMain_item_defined[of x] normalizeMain_item_nullish[of x]
  by (cases "nullish x") auto

lemma toList_item_defined: "\<not> nullish x \<Longrightarrow> \<exists>y. toList_item S x = Inr y"
  by (simp add: toList_item_def get_prop_defined js_or_def)

lemma toList_item_nullish: "nullish x \<Longrightarrow> \<exists>m. toList_item S x = Inl (JsError TypeError m)"
  by (auto simp add: toList_item_def get_prop_def js_or_def)

lemma toList_item_throws_iff: "(\<exists>e. toList_item S x = Inl e) = nullish x"
  using toList_item_defined[of x S] toList_item_nullish[of x S] by (cases "nullish x") auto

lemma non_array_falls_through:
  "\<not> isArray v \<Longrightarrow> toList S v = Inr (JArr []) \<and> normalizeMain v = Inr (JArr [])"
  by (cases v) (simp_all add: toList_def normalizeMain_def)

lemma normalizeMain_throws_iff:
  "(\<exists>e. normalizeMain (JArr xs) = Inl e) = (\<exists>x \<in> set xs. nullish x)"
proof -
  have "(\<exists>e. normalizeMain (JArr xs) = Inl e) = (\<exists>e. map_js normalizeMain_item xs = Inl e)"
    by (cases "map_js normalizeMain_item xs") (simp_all add: normalizeMain_def then_js_def)
  then show ?thesis by (simp add: map_js_throws_iff normalizeMain_item_throws_iff)
qed

lemma toList_throws_iff:
  "(\<exists>e. toList S (JArr xs) = Inl e)
     = (typeof (index0 xs) = ''object'' \<and> (\<exists>x \<in> set xs. nullish x))"
proof (cases "typeof (index0 xs) = ''object''")
  case True
  then have "(\<exists>e. toList S (JArr xs) = Inl e) = (\<exists>e. map_js (toList_item S) xs = Inl e)"
    by (cases "map_js (toList_item S) xs") (simp_all add: toList_def then_js_def)
  with True show ?thesis by (simp add: map_js_throws_iff toList_item_throws_iff)
next
  case False
  then show ?thesis by (simp add: toList_def)
qed

lemma thrown_is_TypeError:
  "normalizeMain v = Inl e \<or> toList S v = Inl e \<Longrightarrow> err_class e = TypeError"
proof (cases v)
  case (JArr xs)
  assume a: "normalizeMain v = Inl e \<or> toList S v = Inl e"
  have n: "map_js normalizeMain_item xs = Inl e \<Longrightarrow> err_class e = TypeError"
  proof -
    assume "map_js normalizeMain_item xs = Inl e"
    then obtain x where "normalizeMain_item x = Inl e" by (blast dest: map_js_throws)
    then show ?thesis
      using normalizeMain_item_nullish[of x] normalizeMain_item_throws_iff[of x] by auto
  qed
  have t: "map_js (toList_item S) xs = Inl e \<Longrightarrow> err_class e = TypeError"
  proof -
    assume "map_js (toList_item S) xs = Inl e"
    then obtain x where "toList_item S x = Inl e" by (blast dest: map_js_throws)
    then show ?thesis
      using toList_item_nullish[of x S] toList_item_throws_iff[of S x] by auto
  qed
  from a JArr n t show ?thesis
    by (auto simp: normalizeMain_def toList_def then_js_def split: sum.splits if_splits)
qed (auto simp: toList_def normalizeMain_def split: if_splits)

lemma toList_returns_array: "toList S v = Inr r \<Longrightarrow> isArray r"
  by (cases v) (auto simp: toList_def then_js_def split: sum.splits if_splits)

text \<open>
  C9, as amended. \<open>toList\<close> and \<open>normalizeMain\<close> map every non-array (\<open>null\<close> and \<open>undefined\<close>
  included) to the empty array. On an array, \<open>normalizeMain\<close> throws exactly when an element
  is \<open>null\<close> or \<open>undefined\<close>, and \<open>toList\<close> exactly when the first element has type
  \<open>object\<close> and an element is \<open>null\<close> or \<open>undefined\<close>; what is thrown is a TypeError.
  Otherwise both return an array, \<open>normalizeMain\<close> one of the same length, and the
  \<open>exercise\<close> field of each of its elements is the input element when that is a string,
  else the first truthy one of the element's \<open>exercise\<close>, \<open>name\<close> and \<open>title\<close>, whatever
  its type, else the string \<open>'\<emdash>'\<close>.
\<close>

theorem normalizers_total_without_nullish_elements:
  "(\<not> isArray v \<longrightarrow> toList S v = Inr (JArr []) \<and> normalizeMain v = Inr (JArr []))
   \<and> ((\<exists>e. normalizeMain (JArr xs) = Inl e) = (\<exists>x \<in> set xs. nullish x))
   \<and> ((\<exists>e. toList S (JArr xs) = Inl e)
        = (typeof (index0 xs) = ''object'' \<and> (\<exists>x \<in> set xs. nullish x)))
   \<and> (\<forall>e. normalizeMain v = Inl e \<or> toList S v = Inl e \<longrightarrow> err_class e = TypeError)
   \<and> (\<forall>r. toList S v = Inr r \<longrightarrow> isArray r)
   \<and> (\<forall>r. normalizeMain (JArr xs) = Inr r \<longrightarrow>
        (\<exists>ys. r = JArr ys \<and> length ys = length xs \<and>
           (\<forall>i < length xs.
              property (ys ! i) ''exercise'' =
                (if typeof (xs ! i) = ''string'' then xs ! i
                 else if truthy (property (xs ! i) ''exercise'') then property (xs ! i) ''exercise''
                 else if truthy (property (xs ! i) ''name'') then property (xs ! i) ''name''
                 else if truthy (property (xs ! i) ''title'') then property (xs ! i) ''title''
                 else JStr em_dash))))"
proof -
  have last: "\<exists>ys. r = JArr ys \<and> length ys = length xs \<and>
           (\<forall>i < length xs.
              property (ys ! i) ''exercise'' =
                (if typeof (xs ! i) = ''string'' then xs ! i
                 else if truthy (property (xs ! i) ''exercise'') then property (xs ! i) ''exercise''
                 else if truthy (property (xs ! i) ''name'') then property (xs ! i) ''name''
                 else if truthy (property (xs ! i) ''title'') then property (xs ! i) ''title''
                 else JStr em_dash))"
    if r: "normalizeMain (JArr xs) = Inr r" for r
  proof -
    from r obtain ys where ys: "map_js normalizeMain_item xs = Inr ys" "r = JArr ys"
      by (auto simp: normalizeMain_def then_js_def split: sum.splits)
    have len: "length ys = length xs" using ys(1) by (rule map_js_length)
    have "property (ys ! i) ''exercise'' =
                (if typeof (xs ! i) = ''string'' then xs ! i
                 else if truthy (property (xs ! i) ''exercise'') then property (xs ! i) ''exercise''
                 else if truthy (property (xs ! i) ''name'') then property (xs ! i) ''name''
                 else if truthy (property (xs ! i) ''title'') then property (xs ! i) ''title''
                 else JStr em_dash)"
      if i: "i < length xs" for i
    proof -
      have item: "normalizeMain_item (xs ! i) = Inr (ys ! i)" using ys(1) i by (rule map_js_nth)
      then have "\<not> nullish (xs ! i)" using normalizeMain_item_throws_iff[of "xs ! i"] by auto
      from normalizeMain_item_defined[OF this] item show ?thesis by auto
    qed
    with len ys(2) show ?thesis by blast
  qed
  show ?thesis
    using non_array_falls_through[of v S] normalizeMain_throws_iff[of xs]
      toList_throws_iff[of S xs] thrown_is_TypeError[of v _ S] toList_returns_array[of S v] last
    by blast
qed

text \<open>
  The number 3 is not an array; an array of a string and an object normalizes to two rows;
  an array that holds \<open>undefined\<close> makes \<open>normalizeMain\<close> throw a TypeError.
\<close>

theorem normalizers_total_without_nullish_elements_witness:
  "\<not> isArray (JNum 3)
   \<and> toList (\<lambda>v. ''{}'') (JNum 3) = Inr (JArr [])
   \<and> normalizeMain (JNum 3) = Inr (JArr [])
   \<and> normalizeMain (JArr [JStr ''Squat'', JObj [(''name'', JStr ''Row''), (''sets'', JNum 3)]])
       = Inr (JArr [JObj [(''exercise'', JStr ''Squat'')],
                    JObj [(''exercise'', JStr ''Row''), (''sets'', JNum 3), (''reps'', JUndefined),
                          (''tempo'', JUndefined), (''rest'', JUndefined)]])
   \<and> normalizeMain (JArr [JStr ''Squat'', JUndefined])
       = Inl (JsError TypeError ''Cannot read properties of undefined (reading exercise)'')
   \<and> err_class (JsError TypeError ''Cannot read properties of undefined (reading exercise)'')
       = TypeError"
  using normalizers_total_without_nullish_elements
    [of "JNum 3" "\<lambda>v. ''{}''" "[JStr ''Squat'', JObj [(''name'', JStr ''Row''), (''sets'', JNum 3)]]"]
    normalizers_total_without_nullish_elements
    [of "JArr [JStr ''Squat'', JUndefined]" "\<lambda>v. ''{}''" "[JStr ''Squat'', JUndefined]"]
  by (simp add: normalizeMain_def normalizeMain_item_def get_prop_def js_or_def js_coalesce_def
        then_js_def)

text \<open>
  C9 as stated fails: \<open>normalizeMain([null])\<close> throws a TypeError, and
  \<open>normalizeMain([{exercise: 5}])\<close> returns a row whose \<open>exercise\<close> field is the number 5.
\<close>

theorem normalizeMain_null_element_throws:
  "normalizeMain (JArr [JNull])
     = Inl (JsError TypeError ''Cannot read properties of null (reading exercise)'')
   \<and> normalizeMain (JArr [JObj [(''exercise'', JNum 5)]])
     = Inr (JArr [JObj [(''exercise'', JNum 5), (''sets'', JUndefined), (''reps'', JUndefined),
                        (''tempo'', JUndefined), (''rest'', JUndefined)]])"
  by (simp add: normalizeMain_def normalizeMain_item_def get_prop_def js_or_def js_coalesce_def
        then_js_def)


section \<open>Properties of the submit handler\<close>

lemma error_name_nonempty: "error_name c \<noteq> []"
  by (cases c) simp_all

lemma String_of_error_nonempty: "message e = [] \<Longrightarrow> String_of_error e \<noteq> []"
  by (simp add: String_of_error_def Let_def error_name_nonempty)

text \<open>
  C10. Whenever \<open>onSubmit\<close> completes, whether the pipeline \<open>createIntake\<close>,
  \<open>generatePlanByIntakeId\<close>, \<open>getPlan\<close> succeeded or a step of it threw, \<open>loading\<close> is false;
  and whenever a step throws, \<open>onSubmit\<close> completes with \<open>plan\<close> still \<open>null\<close> and a non-empty
  \<open>error\<close>. It fails to complete only when an awaited promise never settles.
\<close>

theorem onSubmit_completion:
  "(\<forall>s'. onSubmit ci gp gl form s = Some s' \<longrightarrow> \<not> loading s')
   \<and> (\<forall>e. try_block ci gp gl form = Rejected e \<longrightarrow>
        (\<exists>s'. onSubmit ci gp gl form s = Some s' \<and> \<not> loading s' \<and> plan s' = JNull
              \<and> error s' \<noteq> []))
   \<and> ((onSubmit ci gp gl form s = None) = (try_block ci gp gl form = Pending))"
  by (cases "try_block ci gp gl form")
     (auto simp: onSubmit_def Let_def String_of_error_nonempty)

text \<open>The intake request is answered with a 500: \<open>createIntake\<close> rejects.\<close>

theorem onSubmit_completion_witness:
  "try_block (\<lambda>f. Rejected (JsError Error ''500 Internal Server Error''))
       (\<lambda>i. Pending) (\<lambda>i. Pending) ()
     = Rejected (JsError Error ''500 Internal Server Error'')
   \<and> onSubmit (\<lambda>f. Rejected (JsError Error ''500 Internal Server Error''))
       (\<lambda>i. Pending) (\<lambda>i. Pending) () \<lparr>error = [], plan = JNull, loading = False\<rparr>
     = Some \<lparr>error = ''500 Internal Server Error'', plan = JNull, loading = False\<rparr>"
  using onSubmit_completion
    [of "\<lambda>f. Rejected (JsError Error ''500 Internal Server Error'')" "\<lambda>i. Pending"
        "\<lambda>i. Pending" "()" "\<lparr>error = [], plan = JNull, loading = False\<rparr>"]
  by (simp add: onSubmit_def try_block_def await_def)


section \<open>Properties of the plan lifecycle\<close>

lemma approve_forward:
  "rank (plan_status p) \<le> rank (plan_status (snd (approve vr sig p)))
   \<and> snd (approve vr sig p) = p\<lparr>plan_status := plan_status (snd (approve vr sig p))\<rparr>
   \<and> (plan_status p \<noteq> Draft \<longrightarrow> snd (approve vr sig p) = p)"
  by (simp add: approve_def)

lemma confirm_delivery_forward:
  "rank (plan_status p) \<le> rank (plan_status (snd (confirm_delivery d p)))
   \<and> snd (confirm_delivery d p) = p\<lparr>plan_status := plan_status (snd (confirm_delivery d p))\<rparr>
   \<and> (plan_status p = Sent \<longrightarrow> snd (confirm_delivery d p) = p)"
  by (cases "plan_status p") (simp_all add: confirm_delivery_def)

lemma step_forward:
  assumes "st i = Some p"
  shows "\<exists>p'. step st op i = Some p' \<and> rank (plan_status p) \<le> rank (plan_status p')
           \<and> p' = p\<lparr>plan_status := plan_status p'\<rparr>
           \<and> (plan_status p = Sent \<longrightarrow> p' = p)"
proof (cases op)
  case (Approve j vr sig)
  show ?thesis
  proof (cases "j = i")
    case True
    with Approve assms approve_forward[of p vr sig] show ?thesis by auto
  next
    case False
    with Approve assms show ?thesis by (auto split: option.splits)
  qed
next
  case (ConfirmDelivery j d)
  show ?thesis
  proof (cases "j = i")
    case True
    with ConfirmDelivery assms confirm_delivery_forward[of p d] show ?thesis by auto
  next
    case False
    with ConfirmDelivery assms show ?thesis by (auto split: option.splits)
  qed
next
  case (Generate j c ps t)
  with assms show ?thesis by (auto split: option.splits)
qed

lemma run_forward:
  "st i = Some p \<Longrightarrow>
   \<exists>p'. run st ops i = Some p' \<and> rank (plan_status p) \<le> rank (plan_status p')
         \<and> p' = p\<lparr>plan_status := plan_status p'\<rparr>
         \<and> (plan_status p = Sent \<longrightarrow> p' = p)"
proof (induction ops arbitrary: st p)
  case Nil
  then show ?case by simp
next
  case (Cons op ops)
  from step_forward[of st i p op, OF Cons.prems] obtain q where
    q: "step st op i = Some q" "rank (plan_status p) \<le> rank (plan_status q)"
       "q = p\<lparr>plan_status := plan_status q\<rparr>" "plan_status p = Sent \<longrightarrow> q = p"
    by blast
  from Cons.IH[of "step st op" q, OF q(1)] obtain r where
    r: "run (step st op) ops i = Some r" "rank (plan_status q) \<le> rank (plan_status r)"
       "r = q\<lparr>plan_status := plan_status r\<rparr>" "plan_status q = Sent \<longrightarrow> r = q"
    by blast
  have "r = p\<lparr>plan_status := plan_status r\<rparr>"
    using q(3) r(3) by (metis plan_row.update_convs(5) plan_row.surjective)
  moreover have "plan_status p = Sent \<longrightarrow> r = p" using q(4) r(4) by auto
  ultimately show ?case using r(1) q(2) r(2) by auto
qed

lemma redelivery_on_sent:
  "st i = Some p \<Longrightarrow> plan_status p = Sent \<Longrightarrow> step st (ConfirmDelivery i d) = st"
  by (auto simp: confirm_delivery_def)

lemma step_confirm_idem:
  "step (step st (ConfirmDelivery i d :: ('s, 'v) operation)) (ConfirmDelivery i d :: ('s, 'v) operation)
     = step st (ConfirmDelivery i d :: ('s, 'v) operation)"
proof (cases "st i")
  case None
  then show ?thesis by simp
next
  case (Some p)
  then show ?thesis by (cases "plan_status p") (simp_all add: confirm_delivery_def)
qed

text \<open>
  C4. Approving a draft plan whose ValidationResult has \<open>pass = false\<close> fails with the
  rejection that carries the violation list; the row stays as it was, in draft, and the
  store is unchanged. Approval succeeds only for a draft plan with \<open>pass = true\<close> and the
  trainer's approving decision, and then only the status changes; every rejected attempt
  leaves the row as it was.
\<close>

theorem approve_blocked_on_failing_validation:
  "(plan_status p = Draft \<and> \<not> pass vr \<longrightarrow>
      approve vr sig p = (Some (ValidationFailed (violations vr)), p)
      \<and> (st i = Some p \<longrightarrow> step st (Approve i vr sig) = st))
   \<and> ((fst (approve vr sig p) = None) = (plan_status p = Draft \<and> pass vr \<and> decision sig))
   \<and> (fst (approve vr sig p) = None \<longrightarrow> snd (approve vr sig p) = p\<lparr>plan_status := Approved\<rparr>)
   \<and> (fst (approve vr sig p) \<noteq> None \<longrightarrow> snd (approve vr sig p) = p)"
  by (auto simp: approve_def)

text \<open>
  A draft plan in the store, a ValidationResult with one violation, and an approving
  trainer.
\<close>

theorem approve_blocked_on_failing_validation_witness:
  "plan_status \<lparr>plan_id = ''p1'', client_id = ''c1'', structure_json = ''{}'', pdf_url = None,
        plan_status = Draft, created_at = 0\<rparr> = Draft
   \<and> \<not> pass \<lparr>pass = False, violations = [''deload'']\<rparr>
   \<and> approve \<lparr>pass = False, violations = [''deload'']\<rparr> \<lparr>decision = True, trainer = ''t1''\<rparr>
       \<lparr>plan_id = ''p1'', client_id = ''c1'', structure_json = ''{}'', pdf_url = None,
        plan_status = Draft, created_at = 0\<rparr>
      = (Some (ValidationFailed [''deload'']),
       \<lparr>plan_id = ''p1'', client_id = ''c1'', structure_json = ''{}'', pdf_url = None,
        plan_status = Draft, created_at = 0\<rparr>)
   \<and> step [''p1'' \<mapsto> \<lparr>plan_id = ''p1'', client_id = ''c1'', structure_json = ''{}'', pdf_url = None,
        plan_status = Draft, created_at = 0\<rparr>]
        (Approve ''p1'' \<lparr>pass = False, violations = [''deload'']\<rparr>
           \<lparr>decision = True, trainer = ''t1''\<rparr>)
      = [''p1'' \<mapsto> \<lparr>plan_id = ''p1'', client_id = ''c1'', structure_json = ''{}'', pdf_url = None,
        plan_status = Draft, created_at = 0\<rparr>]"
  using approve_blocked_on_failing_validation
    [of "\<lparr>plan_id = ''p1'', client_id = ''c1'', structure_json = ''{}'', pdf_url = None,
        plan_status = Draft, created_at = 0\<rparr>"
        "\<lparr>pass = False, violations = [''deload'']\<rparr>" "\<lparr>decision = True, trainer = ''t1''\<rparr>"
        "[''p1'' \<mapsto> \<lparr>plan_id = ''p1'', client_id = ''c1'', structure_json = ''{}'', pdf_url = None,
        plan_status = Draft, created_at = 0\<rparr>]" "''p1''"]
  by simp

text \<open>
  C7. Whatever sequence of approvals, delivery confirmations, redeliveries and
  (re)generations is run, a plan of the store is still there afterwards with a status that
  is not earlier along \<open>draft \<rightarrow> approved \<rightarrow> sent\<close>, and nothing but its status has changed;
  a sent plan is left exactly as it was. A redelivery attempt on a sent plan leaves the
  whole store unchanged, so no plan is generated, and confirming a delivery twice is the
  same as confirming it once.
\<close>

theorem status_never_regresses:
  "(st i = Some p \<longrightarrow>
      (\<exists>p'. run st (ops :: ('s, 'v) operation list) i = Some p'
         \<and> rank (plan_status p) \<le> rank (plan_status p')
         \<and> p' = p\<lparr>plan_status := plan_status p'\<rparr>
         \<and> (plan_status p = Sent \<longrightarrow> p' = p)))
   \<and> (st i = Some p \<and> plan_status p = Sent \<longrightarrow>
        step st (ConfirmDelivery i d :: ('s, 'v) operation) = st)
   \<and> step (step st (ConfirmDelivery i d :: ('s, 'v) operation)) (ConfirmDelivery i d :: ('s, 'v) operation)
       = step st (ConfirmDelivery i d :: ('s, 'v) operation)"
  using run_forward[of st i p ops] redelivery_on_sent[of st i p d] step_confirm_idem[of st i d]
  by blast

text \<open>
  A draft plan is approved and sent; a later approval with a failing validation, a
  generation under the same id and a redelivery leave it sent. A redelivery on a store
  whose plan is sent leaves the store as it is.
\<close>

theorem status_never_regresses_witness:
  "[''p1'' \<mapsto> \<lparr>plan_id = ''p1'', client_id = ''c1'', structure_json = ''{}'', pdf_url = None,
        plan_status = Draft, created_at = 0\<rparr>] ''p1''
     = Some \<lparr>plan_id = ''p1'', client_id = ''c1'', structure_json = ''{}'', pdf_url = None,
        plan_status = Draft, created_at = 0\<rparr>
   \<and> run [''p1'' \<mapsto> \<lparr>plan_id = ''p1'', client_id = ''c1'', structure_json = ''{}'', pdf_url = None,
        plan_status = Draft, created_at = 0\<rparr>]
        [Approve ''p1'' \<lparr>pass = True, violations = ([] :: string list)\<rparr>
           \<lparr>decision = True, trainer = ''t1''\<rparr>,
         ConfirmDelivery ''p1'' True,
         Approve ''p1'' \<lparr>pass = False, violations = [''deload'']\<rparr>
           \<lparr>decision = True, trainer = ''t1''\<rparr>,
         Generate ''p1'' ''c1'' ''[]'' 7,
         ConfirmDelivery ''p1'' True] ''p1''
     = Some \<lparr>plan_id = ''p1'', client_id = ''c1'', structure_json = ''{}'', pdf_url = None,
        plan_status = Sent, created_at = 0\<rparr>
   \<and> plan_status \<lparr>plan_id = ''p1'', client_id = ''c1'', structure_json = ''{}'', pdf_url = None,
        plan_status = Sent, created_at = 0\<rparr> = Sent
   \<and> step [''p1'' \<mapsto> \<lparr>plan_id = ''p1'', client_id = ''c1'', structure_json = ''{}'', pdf_url = None,
        plan_status = Sent, created_at = 0\<rparr>]
        (ConfirmDelivery ''p1'' True :: (string, string) operation)
     = [''p1'' \<mapsto> \<lparr>plan_id = ''p1'', client_id = ''c1'', structure_json = ''{}'', pdf_url = None,
        plan_status = Sent, created_at = 0\<rparr>]"
  using status_never_regresses
    [of "[''p1'' \<mapsto> \<lparr>plan_id = ''p1'', client_id = ''c1'', structure_json = ''{}'', pdf_url = None,
        plan_status = Draft, created_at = 0\<rparr>]" "''p1''"
        "\<lparr>plan_id = ''p1'', client_id = ''c1'', structure_json = ''{}'', pdf_url = None,
        plan_status = Draft, created_at = 0\<rparr>"
        "[Approve ''p1'' \<lparr>pass = True, violations = ([] :: string list)\<rparr>
           \<lparr>decision = True, trainer = ''t1''\<rparr>,
         ConfirmDelivery ''p1'' True,
         Approve ''p1'' \<lparr>pass = False, violations = [''deload'']\<rparr>
           \<lparr>decision = True, trainer = ''t1''\<rparr>,
         Generate ''p1'' ''c1'' ''[]'' 7,
         ConfirmDelivery ''p1'' True]" True]
    status_never_regresses
    [of "[''p1'' \<mapsto> \<lparr>plan_id = ''p1'', client_id = ''c1'', structure_json = ''{}'', pdf_url = None,
        plan_status = Sent, created_at = 0\<rparr>]" "''p1''"
        "\<lparr>plan_id = ''p1'', client_id = ''c1'', structure_json = ''{}'', pdf_url = None,
        plan_status = Sent, created_at = 0\<rparr>"
        "[] :: (string, string) operation list" True]
  by (simp add: approve_def confirm_delivery_def)

end
